theory Spec2Isabelle
  imports Main
begin

section \<open>The query editor's state-transition core (src/app.tsx)\<close>

subsection \<open>Data model\<close>

text \<open>
  \<^verbatim>\<open>type QueryType = "all" | "any"\<close>, \<^verbatim>\<open>type Field = "title" | "body"\<close>,
  and the tag \<^verbatim>\<open>Method["type"] = "equal" | "match"\<close>.
\<close>

datatype QueryType = QAll | QAny

datatype Field = Title | Body

datatype MethodType = EqualT | MatchT

text \<open>
  \<^verbatim>\<open>type Method = { type: "equal"; value: string } | { type: "match"; value: string }\<close>:
  a tagged union, both variants carrying the operand \<^verbatim>\<open>value\<close>.
\<close>

datatype Method = Equal (method_value: string) | Match (method_value: string)

fun method_type :: "Method \<Rightarrow> MethodType" where
  "method_type (Equal v) = EqualT"
| "method_type (Match v) = MatchT"

text \<open>The tag \<^verbatim>\<open>Predicate["type"] = "field" | "query"\<close>.\<close>

datatype PredicateType = FieldT | QueryT

text \<open>
  \<^verbatim>\<open>Predicate = FieldPredicate | QueryPredicate\<close> and
  \<^verbatim>\<open>Query = { type: QueryType; predicates: readonly Predicate[] }\<close> are mutually
  recursive; the values are immutable, so they are plain trees.
\<close>

datatype Predicate =
    FieldPredicate (pred_field: Field) (pred_method: Method)
  | QueryPredicate (pred_query: Query)
and Query =
    Query (query_type: QueryType) (predicates: "Predicate list")

fun predicate_type :: "Predicate \<Rightarrow> PredicateType" where
  "predicate_type (FieldPredicate f m) = FieldT"
| "predicate_type (QueryPredicate q) = QueryT"

subsection \<open>Constants and tables\<close>

definition initQueryType :: QueryType where
  "initQueryType = QAll"

definition initField :: Field where
  "initField = Title"

text \<open>\<^verbatim>\<open>allowedMethods\<close>: an ordered array of method tags per field.\<close>

fun allowedMethods :: "Field \<Rightarrow> MethodType list" where
  "allowedMethods Title = [EqualT]"
| "allowedMethods Body = [EqualT, MatchT]"

fun initMethods :: "MethodType \<Rightarrow> Method" where
  "initMethods EqualT = Equal ''''"
| "initMethods MatchT = Match ''''"

definition initPredicateMethod :: Method where
  "initPredicateMethod = initMethods EqualT"

definition initFieldPredicate :: Predicate where
  "initFieldPredicate = FieldPredicate initField initPredicateMethod"

definition initQuery :: Query where
  "initQuery = Query initQueryType []"

definition initQueryPredicate :: Predicate where
  "initQueryPredicate = QueryPredicate initQuery"

subsection \<open>Actions\<close>

text \<open>
  Both action types have a variant tagged \<^verbatim>\<open>"updateType"\<close>; the method action's
  is named \<open>MUpdateType\<close> here. Indices are JavaScript numbers; the model takes them
  as integers of either sign (the driving layer only ever sends array positions).
\<close>

datatype MethodAction =
    MUpdateType MethodType
  | UpdateTextValue string

datatype QueryAction =
    UpdateType QueryType
  | InsertFirst PredicateType
  | InsertAfterNth PredicateType int
  | RemoveNth int
  | UpdateNthQuery int QueryAction
  | UpdateNthField int Field
  | UpdateNthMethod int MethodAction

subsection \<open>JavaScript array primitives\<close>

text \<open>
  \<^verbatim>\<open>xs[i]\<close>: the element when \<open>0 \<le> i < length\<close>, \<^verbatim>\<open>undefined\<close> (here \<open>None\<close>)
  otherwise.
\<close>

definition js_index :: "'a list \<Rightarrow> int \<Rightarrow> 'a option" where
  "js_index xs i = (if 0 \<le> i \<and> i < int (length xs) then Some (xs ! nat i) else None)"

text \<open>
  \<^verbatim>\<open>Array.prototype.slice\<close>: a negative bound counts from the end and is clamped at 0,
  a non-negative one is clamped at the length.
\<close>

definition js_rel :: "int \<Rightarrow> int \<Rightarrow> int" where
  "js_rel len k = (if k < 0 then max (len + k) 0 else min k len)"

definition js_slice :: "'a list \<Rightarrow> int \<Rightarrow> int \<Rightarrow> 'a list" where
  "js_slice xs start end =
     (let len = int (length xs);
          k = js_rel len start;
          final = js_rel len end
      in take (nat (final - k)) (drop (nat k) xs))"

text \<open>\<^verbatim>\<open>xs.slice(start)\<close>: the end defaults to the length.\<close>

definition js_slice_from :: "'a list \<Rightarrow> int \<Rightarrow> 'a list" where
  "js_slice_from xs start = js_slice xs start (int (length xs))"

subsection \<open>Failures\<close>

text \<open>
  The reducer can throw in two ways: reading \<^verbatim>\<open>.type\<close> of \<^verbatim>\<open>undefined\<close> (the
  runtime's \<^verbatim>\<open>TypeError\<close>, when \<^verbatim>\<open>preds[i]\<close> does not exist), and the two explicit
  \<^verbatim>\<open>throw new Error(...)\<close> statements, whose messages carry the index.
\<close>

datatype error =
    TypeError
  | NotAQuery int
  | NotAFieldType int

text \<open>The explicit throws are the failures the variant checks raise.\<close>

fun is_type_mismatch :: "error \<Rightarrow> bool" where
  "is_type_mismatch TypeError = False"
| "is_type_mismatch (NotAQuery i) = True"
| "is_type_mismatch (NotAFieldType i) = True"

subsection \<open>methodReducer\<close>

fun methodReducer :: "Method \<Rightarrow> MethodAction \<Rightarrow> Method" where
  "methodReducer method (MUpdateType methodType) = initMethods methodType"
| "methodReducer method (UpdateTextValue v) =
     (case method of
        Equal _ \<Rightarrow> Equal v
      | Match _ \<Rightarrow> Match v)"

subsection \<open>queryReducer\<close>

fun queryReducer :: "Query \<Rightarrow> QueryAction \<Rightarrow> error + Query" where
  "queryReducer query (UpdateType queryType) =
     Inr (Query queryType (predicates query))"
| "queryReducer query (InsertFirst predicateType) =
     (let toInsert =
            (if predicateType = FieldT then initFieldPredicate else initQueryPredicate)
      in Inr (Query (query_type query) (toInsert # predicates query)))"
| "queryReducer query (InsertAfterNth predType i) =
     (let preds = predicates query in
      case js_index preds i of
        None \<Rightarrow> Inl TypeError
      | Some cursor \<Rightarrow>
          (let toInsert =
                 (if predicate_type cursor = predType then cursor
                  else if predType = FieldT then initFieldPredicate
                  else initQueryPredicate);
               lhs = js_slice preds 0 (i + 1);
               rhs = js_slice_from preds (i + 1)
           in Inr (Query (query_type query) (lhs @ [toInsert] @ rhs))))"
| "queryReducer query (RemoveNth i) =
     (let preds = predicates query;
          lhs = js_slice preds 0 i;
          rhs = js_slice_from preds (i + 1)
      in Inr (Query (query_type query) (lhs @ rhs)))"
| "queryReducer query (UpdateNthQuery index action) =
     (let preds = predicates query in
      case js_index preds index of
        None \<Rightarrow> Inl TypeError
      | Some (FieldPredicate f m) \<Rightarrow> Inl (NotAQuery index)
      | Some (QueryPredicate nq) \<Rightarrow>
          (case queryReducer nq action of
             Inl e \<Rightarrow> Inl e
           | Inr nq' \<Rightarrow>
               Inr (Query (query_type query) (preds[nat index := QueryPredicate nq']))))"
| "queryReducer query (UpdateNthField index field) =
     (let preds = predicates query in
      case js_index preds index of
        None \<Rightarrow> Inl TypeError
      | Some (QueryPredicate nq) \<Rightarrow> Inl (NotAFieldType index)
      | Some (FieldPredicate nf nm) \<Rightarrow>
          (let method =
                 (if method_type nm \<notin> set (allowedMethods field)
                  then initMethods (hd (allowedMethods field))
                  else nm)
           in Inr (Query (query_type query)
                     (preds[nat index := FieldPredicate field method]))))"
| "queryReducer query (UpdateNthMethod index action) =
     (let preds = predicates query in
      case js_index preds index of
        None \<Rightarrow> Inl TypeError
      | Some (QueryPredicate nq) \<Rightarrow> Inl (NotAFieldType index)
      | Some (FieldPredicate nf nm) \<Rightarrow>
          (let method = methodReducer nm action in
           if method_type method \<notin> set (allowedMethods nf) then Inr query
           else Inr (Query (query_type query)
                       (preds[nat index := FieldPredicate nf method]))))"

text \<open>
  A run of the reducer over a sequence of actions (React's \<^verbatim>\<open>useReducer\<close> starting
  from \<^verbatim>\<open>initQuery\<close>); it stops at the first action that throws.
\<close>

fun applyActions :: "Query \<Rightarrow> QueryAction list \<Rightarrow> error + Query" where
  "applyActions q [] = Inr q"
| "applyActions q (a # as) =
     (case queryReducer q a of
        Inl e \<Rightarrow> Inl e
      | Inr q' \<Rightarrow> applyActions q' as)"

subsection \<open>The field/method compatibility invariant\<close>

fun predicate_ok :: "Predicate \<Rightarrow> bool"
  and query_ok :: "Query \<Rightarrow> bool" where
  "predicate_ok (FieldPredicate f m) = (method_type m \<in> set (allowedMethods f))"
| "predicate_ok (QueryPredicate q) = query_ok q"
| "query_ok (Query t ps) = (\<forall>p \<in> set ps. predicate_ok p)"

section \<open>Properties\<close>

subsection \<open>Array primitives and the invariant: auxiliary facts\<close>

lemma js_index_in_range:
  "0 \<le> i \<Longrightarrow> i < int (length xs) \<Longrightarrow> js_index xs i = Some (xs ! nat i)"
  by (simp add: js_index_def)

lemma js_index_out_of_range:
  "i < 0 \<or> int (length xs) \<le> i \<Longrightarrow> js_index xs i = None"
  by (auto simp: js_index_def)

lemma js_index_SomeD:
  "js_index xs i = Some x \<Longrightarrow> 0 \<le> i \<and> nat i < length xs \<and> x = xs ! nat i"
  by (auto simp: js_index_def split: if_splits)

lemma js_slice_prefix:
  "0 \<le> i \<Longrightarrow> js_slice xs 0 i = take (nat i) xs"
  by (auto simp: js_slice_def js_rel_def Let_def min_def)

lemma js_slice_from_suffix:
  "0 \<le> i \<Longrightarrow> js_slice_from xs i = drop (nat i) xs"
  by (auto simp: js_slice_from_def js_slice_def js_rel_def Let_def min_def)

lemma set_js_slice: "set (js_slice xs s e) \<subseteq> set xs"
proof -
  have "set (take n (drop k xs)) \<subseteq> set xs" for n k
    using set_take_subset [of n "drop k xs"] set_drop_subset [of k xs] by blast
  then show ?thesis by (simp add: js_slice_def Let_def)
qed

lemma set_js_slice_from: "set (js_slice_from xs s) \<subseteq> set xs"
  by (simp add: js_slice_from_def set_js_slice)

lemma query_ok_subset:
  "query_ok q \<Longrightarrow> set ps \<subseteq> set (predicates q) \<union> {p. predicate_ok p}
     \<Longrightarrow> query_ok (Query t ps)"
  by (cases q) auto

lemma predicate_ok_init:
  "predicate_ok initFieldPredicate" "predicate_ok initQueryPredicate"
  by (simp_all add: initFieldPredicate_def initQueryPredicate_def initQuery_def
      initField_def initPredicateMethod_def)

lemma query_ok_predicates: "query_ok q = (\<forall>p \<in> set (predicates q). predicate_ok p)"
  by (cases q) simp

lemma reset_method_ok:
  "method_type (if method_type m \<notin> set (allowedMethods f)
                then initMethods (hd (allowedMethods f)) else m) \<in> set (allowedMethods f)"
  by (cases f; cases m; simp)

lemma query_ok_update:
  "query_ok q \<Longrightarrow> predicate_ok p \<Longrightarrow> query_ok (Query t ((predicates q)[n := p]))"
  using set_update_subset_insert [of "predicates q" n p]
  by (auto simp: query_ok_predicates)

lemma queryReducer_preserves_ok:
  "query_ok q \<Longrightarrow> queryReducer q a = Inr q' \<Longrightarrow> query_ok q'"
proof (induction a arbitrary: q q')
  case (UpdateType t)
  then show ?case by (auto simp: query_ok_predicates)
next
  case (InsertFirst k)
  then show ?case by (auto simp: query_ok_predicates predicate_ok_init)
next
  case (InsertAfterNth k i)
  from InsertAfterNth.prems(2) obtain cursor where
    idx: "js_index (predicates q) i = Some cursor"
    and res: "q' = Query (query_type q)
        (js_slice (predicates q) 0 (i + 1) @
         [if predicate_type cursor = k then cursor
          else if k = FieldT then initFieldPredicate else initQueryPredicate] @
         js_slice_from (predicates q) (i + 1))"
    by (auto simp: Let_def split: option.splits)
  from idx have "cursor \<in> set (predicates q)"
    by (auto dest!: js_index_SomeD)
  then show ?case unfolding res
    using set_js_slice [of "predicates q" 0 "i + 1"]
      set_js_slice_from [of "predicates q" "i + 1"]
    by (intro query_ok_subset [OF InsertAfterNth.prems(1)])
       (auto simp: predicate_ok_init)
next
  case (RemoveNth i)
  from RemoveNth.prems(2) have
    res: "q' = Query (query_type q)
        (js_slice (predicates q) 0 i @ js_slice_from (predicates q) (i + 1))"
    by (simp add: Let_def)
  show ?case unfolding res
    using set_js_slice [of "predicates q" 0 i]
      set_js_slice_from [of "predicates q" "i + 1"]
    by (intro query_ok_subset [OF RemoveNth.prems(1)]) auto
next
  case (UpdateNthQuery i a)
  from UpdateNthQuery.prems(2) obtain nq nq' where
    idx: "js_index (predicates q) i = Some (QueryPredicate nq)"
    and sub: "queryReducer nq a = Inr nq'"
    and res: "q' = Query (query_type q) ((predicates q)[nat i := QueryPredicate nq'])"
    by (auto simp: Let_def split: option.splits Predicate.splits sum.splits)
  from idx have "QueryPredicate nq \<in> set (predicates q)"
    by (auto dest!: js_index_SomeD)
  with UpdateNthQuery.prems(1) have "query_ok nq"
    by (auto simp: query_ok_predicates)
  then have "query_ok nq'" using sub by (rule UpdateNthQuery.IH)
  then have "predicate_ok (QueryPredicate nq')" by simp
  with UpdateNthQuery.prems(1) show ?case unfolding res
    by (rule query_ok_update)
next
  case (UpdateNthField i f)
  from UpdateNthField.prems(2) obtain nf nm where
    res: "q' = Query (query_type q) ((predicates q)[nat i := FieldPredicate f
            (if method_type nm \<notin> set (allowedMethods f)
             then initMethods (hd (allowedMethods f)) else nm)])"
    by (auto simp: Let_def split: option.splits Predicate.splits)
  show ?case unfolding res
    by (rule query_ok_update [OF UpdateNthField.prems(1)]) (simp only: predicate_ok.simps reset_method_ok)
next
  case (UpdateNthMethod i ma)
  from UpdateNthMethod.prems(2) consider
    (same) "q' = q"
    | (upd) nf nm where
      "method_type (methodReducer nm ma) \<in> set (allowedMethods nf)"
      "q' = Query (query_type q)
              ((predicates q)[nat i := FieldPredicate nf (methodReducer nm ma)])"
    by (auto simp: Let_def split: option.splits Predicate.splits if_splits)
  then show ?case
  proof cases
    case same
    with UpdateNthMethod.prems(1) show ?thesis by simp
  next
    case upd
    from upd(1) have "predicate_ok (FieldPredicate nf (methodReducer nm ma))" by simp
    with UpdateNthMethod.prems(1) show ?thesis unfolding upd(2)
      by (rule query_ok_update)
  qed
qed

subsection \<open>Invariant preservation\<close>

text \<open>
  Claim C1. Start from the empty root \<open>initQuery\<close> (ALL, no predicates) and apply any
  finite sequence of actions. If every step of the run succeeds (no step throws), then
  every field predicate anywhere in the resulting tree has a method whose kind is listed
  in \<open>allowedMethods\<close> for its field: \<open>[EqualT]\<close> for \<open>Title\<close>,
  \<open>[EqualT, MatchT]\<close> for \<open>Body\<close>.
\<close>

theorem invariant_preserved:
  "applyActions initQuery as = Inr q \<Longrightarrow> query_ok q"
proof -
  have gen: "query_ok q0 \<Longrightarrow> applyActions q0 as = Inr q \<Longrightarrow> query_ok q" for q0
  proof (induction as arbitrary: q0)
    case Nil
    then show ?case by simp
  next
    case (Cons a as)
    then show ?case
      by (auto split: sum.splits dest: queryReducer_preserves_ok)
  qed
  assume "applyActions initQuery as = Inr q"
  with gen [of initQuery] show ?thesis by (simp add: initQuery_def)
qed

text \<open>
  A run of five successful actions, one of them descending into a nested query; the
  resulting tree satisfies the invariant.
\<close>

theorem invariant_preserved_witness:
  "applyActions initQuery
     [InsertFirst FieldT, UpdateNthField 0 Body, UpdateNthMethod 0 (MUpdateType MatchT),
      InsertFirst QueryT, UpdateNthQuery 0 (InsertFirst FieldT)]
   = Inr (Query QAll
       [QueryPredicate (Query QAll [FieldPredicate Title (Equal '''')]),
        FieldPredicate Body (Match '''')])
   \<and> query_ok (Query QAll
       [QueryPredicate (Query QAll [FieldPredicate Title (Equal '''')]),
        FieldPredicate Body (Match '''')])"
proof -
  have run: "applyActions initQuery
     [InsertFirst FieldT, UpdateNthField 0 Body, UpdateNthMethod 0 (MUpdateType MatchT),
      InsertFirst QueryT, UpdateNthQuery 0 (InsertFirst FieldT)]
   = Inr (Query QAll
       [QueryPredicate (Query QAll [FieldPredicate Title (Equal '''')]),
        FieldPredicate Body (Match '''')])"
    by (simp add: initQuery_def initQueryType_def initFieldPredicate_def
        initQueryPredicate_def initField_def initPredicateMethod_def js_index_def)
  from run invariant_preserved [OF run] show ?thesis by simp
qed

subsection \<open>Indices outside the predicate list\<close>

text \<open>
  Claim C2 says that every indexed action with an index outside \<open>0 \<le> i < length\<close>
  fails, with a failure of its own kind. The reducer has no index check: \<^verbatim>\<open>removeNth\<close>
  only slices, and slicing never throws. Removing at index 5 from a query of two
  predicates succeeds and returns the query as it was.
\<close>

theorem removeNth_out_of_range_counterexample:
  "length (predicates (Query QAll [initFieldPredicate, initQueryPredicate])) = 2
   \<and> queryReducer (Query QAll [initFieldPredicate, initQueryPredicate]) (RemoveNth 5)
     = Inr (Query QAll [initFieldPredicate, initQueryPredicate])"
  by (simp add: js_slice_def js_slice_from_def js_rel_def)

text \<open>
  Claim C2, amended. For an index outside \<open>0 \<le> i < length\<close>, the four actions that read
  \<^verbatim>\<open>preds[i]\<close> (\<^verbatim>\<open>insertAfterNth\<close>, \<^verbatim>\<open>updateNthQuery\<close>, \<^verbatim>\<open>updateNthField\<close>,
  \<^verbatim>\<open>updateNthMethod\<close>) fail with the runtime's \<open>TypeError\<close> (reading \<^verbatim>\<open>.type\<close> of
  \<^verbatim>\<open>undefined\<close>), which is not one of the variant-mismatch failures. \<^verbatim>\<open>removeNth\<close> does
  not fail for any index, and an index at or beyond the length leaves the query
  unchanged.
\<close>

theorem index_out_of_range:
  assumes "i < 0 \<or> int (length (predicates q)) \<le> i"
  shows "queryReducer q (InsertAfterNth k i) = Inl TypeError
       \<and> queryReducer q (UpdateNthQuery i a) = Inl TypeError
       \<and> queryReducer q (UpdateNthField i f) = Inl TypeError
       \<and> queryReducer q (UpdateNthMethod i ma) = Inl TypeError
       \<and> \<not> is_type_mismatch TypeError
       \<and> \<not> isl (queryReducer q (RemoveNth i))
       \<and> (int (length (predicates q)) \<le> i \<longrightarrow> queryReducer q (RemoveNth i) = Inr q)"
proof -
  have "int (length (predicates q)) \<le> i \<Longrightarrow> queryReducer q (RemoveNth i) = Inr q"
    by (cases q) (simp add: js_slice_prefix js_slice_from_suffix)
  with assms show ?thesis
    by (simp add: js_index_out_of_range Let_def)
qed

text \<open>
  The amended statement at indices 2, -1, 7 and 5 of a two-predicate query, and at
  index 0 of the empty query.
\<close>

theorem index_out_of_range_witness:
  "queryReducer (Query QAll [initFieldPredicate, initQueryPredicate]) (InsertAfterNth FieldT 2)
     = Inl TypeError
   \<and> queryReducer (Query QAll [initFieldPredicate, initQueryPredicate])
       (UpdateNthQuery (- 1) (InsertFirst FieldT)) = Inl TypeError
   \<and> queryReducer (Query QAll [initFieldPredicate, initQueryPredicate]) (UpdateNthField 7 Body)
     = Inl TypeError
   \<and> queryReducer (Query QAll []) (UpdateNthMethod 0 (UpdateTextValue ''a'')) = Inl TypeError
   \<and> \<not> isl (queryReducer (Query QAll [initFieldPredicate, initQueryPredicate]) (RemoveNth 5))
   \<and> queryReducer (Query QAll [initFieldPredicate, initQueryPredicate]) (RemoveNth 5)
     = Inr (Query QAll [initFieldPredicate, initQueryPredicate])"
  using index_out_of_range [of 2 "Query QAll [initFieldPredicate, initQueryPredicate]"
      FieldT "InsertFirst FieldT" Body "UpdateTextValue ''a''"]
    index_out_of_range [of "- 1" "Query QAll [initFieldPredicate, initQueryPredicate]"
      FieldT "InsertFirst FieldT" Body "UpdateTextValue ''a''"]
    index_out_of_range [of 7 "Query QAll [initFieldPredicate, initQueryPredicate]"
      FieldT "InsertFirst FieldT" Body "UpdateTextValue ''a''"]
    index_out_of_range [of 0 "Query QAll []"
      FieldT "InsertFirst FieldT" Body "UpdateTextValue ''a''"]
    index_out_of_range [of 5 "Query QAll [initFieldPredicate, initQueryPredicate]"
      FieldT "InsertFirst FieldT" Body "UpdateTextValue ''a''"]
  by simp

text \<open>
  Claim C10. Removing at an index \<open>i \<ge> length\<close> does not fail and returns a query
  equal to the one given: \<^verbatim>\<open>slice(0, i)\<close> is the whole list and \<^verbatim>\<open>slice(i + 1)\<close> is
  empty.
\<close>

theorem removeNth_beyond_end:
  "int (length (predicates q)) \<le> i \<Longrightarrow> queryReducer q (RemoveNth i) = Inr q"
  by (cases q) (simp add: js_slice_prefix js_slice_from_suffix)

text \<open>
  Removing at index 2, the length itself, of a two-predicate query.
\<close>

theorem removeNth_beyond_end_witness:
  "queryReducer (Query QAll [initFieldPredicate, initQueryPredicate]) (RemoveNth 2)
   = Inr (Query QAll [initFieldPredicate, initQueryPredicate])"
  using removeNth_beyond_end [of "Query QAll [initFieldPredicate, initQueryPredicate]" 2]
  by simp

subsection \<open>Variant mismatch\<close>

text \<open>
  Claim C3. For an index in range: \<^verbatim>\<open>updateNthQuery\<close> on a field predicate throws the
  "not a query" error, and \<^verbatim>\<open>updateNthField\<close> and \<^verbatim>\<open>updateNthMethod\<close> on a query
  predicate throw the "not a field type" error; both are variant-mismatch failures.
\<close>

theorem predicate_type_mismatch:
  assumes "0 \<le> i" and "i < int (length (predicates q))"
  shows "(predicate_type (predicates q ! nat i) = FieldT \<longrightarrow>
            queryReducer q (UpdateNthQuery i a) = Inl (NotAQuery i))
       \<and> (predicate_type (predicates q ! nat i) = QueryT \<longrightarrow>
            queryReducer q (UpdateNthField i f) = Inl (NotAFieldType i)
          \<and> queryReducer q (UpdateNthMethod i ma) = Inl (NotAFieldType i))
       \<and> is_type_mismatch (NotAQuery i) \<and> is_type_mismatch (NotAFieldType i)"
  using assms
  by (cases "predicates q ! nat i") (simp_all add: js_index_in_range Let_def)

text \<open>
  Both halves on one query: index 1 holds a field predicate, index 0 a query
  predicate.
\<close>

theorem predicate_type_mismatch_witness:
  "queryReducer (Query QAll [initQueryPredicate, FieldPredicate Body (Match ''abc'')])
     (UpdateNthQuery 1 (InsertFirst FieldT)) = Inl (NotAQuery 1)
   \<and> queryReducer (Query QAll [initQueryPredicate, FieldPredicate Body (Match ''abc'')])
     (UpdateNthField 0 Body) = Inl (NotAFieldType 0)
   \<and> queryReducer (Query QAll [initQueryPredicate, FieldPredicate Body (Match ''abc'')])
     (UpdateNthMethod 0 (UpdateTextValue ''a'')) = Inl (NotAFieldType 0)"
  using predicate_type_mismatch [of 1
      "Query QAll [initQueryPredicate, FieldPredicate Body (Match ''abc'')]"
      "InsertFirst FieldT" Body "UpdateTextValue ''a''"]
    predicate_type_mismatch [of 0
      "Query QAll [initQueryPredicate, FieldPredicate Body (Match ''abc'')]"
      "InsertFirst FieldT" Body "UpdateTextValue ''a''"]
  by (simp add: initQueryPredicate_def)

subsection \<open>Insertion\<close>

text \<open>
  Claim C4. For an index in range, \<^verbatim>\<open>insertAfterNth\<close> yields the predicates up to and
  including position \<open>i\<close>, then one new predicate, then the remaining predicates, all
  in their old order. The new predicate is the one at \<open>i\<close> itself when that has the
  requested variant, and the default of the requested variant otherwise.
\<close>

theorem insertAfterNth_reuse:
  assumes "0 \<le> i" and "i < int (length (predicates q))"
  shows "queryReducer q (InsertAfterNth k i) =
           Inr (Query (query_type q)
             (take (nat i + 1) (predicates q)
              @ [if predicate_type (predicates q ! nat i) = k then predicates q ! nat i
                 else if k = FieldT then initFieldPredicate else initQueryPredicate]
              @ drop (nat i + 1) (predicates q)))"
  using assms
  by (simp add: js_index_in_range js_slice_prefix js_slice_from_suffix Let_def nat_add_distrib)

text \<open>
  Next to \<open>Body\<close>/\<open>Match "abc"\<close> a field insertion copies it; next to a query
  predicate a field insertion gives the default field predicate.
\<close>

theorem insertAfterNth_reuse_witness:
  "queryReducer (Query QAny [initQueryPredicate, FieldPredicate Body (Match ''abc''), initQueryPredicate])
     (InsertAfterNth FieldT 1)
   = Inr (Query QAny [initQueryPredicate, FieldPredicate Body (Match ''abc''),
            FieldPredicate Body (Match ''abc''), initQueryPredicate])
   \<and> queryReducer (Query QAny [initQueryPredicate, FieldPredicate Body (Match ''abc''), initQueryPredicate])
     (InsertAfterNth FieldT 0)
   = Inr (Query QAny [initQueryPredicate, FieldPredicate Title (Equal ''''),
            FieldPredicate Body (Match ''abc''), initQueryPredicate])"
  using insertAfterNth_reuse [of 1
      "Query QAny [initQueryPredicate, FieldPredicate Body (Match ''abc''), initQueryPredicate]" FieldT]
    insertAfterNth_reuse [of 0
      "Query QAny [initQueryPredicate, FieldPredicate Body (Match ''abc''), initQueryPredicate]" FieldT]
  by (simp add: initQueryPredicate_def initFieldPredicate_def initField_def initPredicateMethod_def)

text \<open>
  Claim C7. Inserting a default predicate of either variant at the front and then
  removing at index 0 gives back the query: both steps succeed and the result equals
  the start.
\<close>

theorem insertFirst_removeNth_inverse:
  "applyActions q [InsertFirst k, RemoveNth 0] = Inr q"
  by (cases q) (simp add: js_slice_prefix js_slice_from_suffix)

text \<open>
  The round trip on a one-predicate ANY query.
\<close>

theorem insertFirst_removeNth_inverse_witness:
  "applyActions (Query QAny [FieldPredicate Body (Match ''abc'')]) [InsertFirst QueryT, RemoveNth 0]
   = Inr (Query QAny [FieldPredicate Body (Match ''abc'')])"
  using insertFirst_removeNth_inverse [of "Query QAny [FieldPredicate Body (Match ''abc'')]" QueryT]
  by simp

subsection \<open>Field and method updates\<close>

text \<open>
  Claim C5. When the predicate at an in-range index is a field predicate,
  \<^verbatim>\<open>updateNthField\<close> replaces its field; the method is kept when its kind is allowed
  for the new field and is otherwise reset to the default of the first allowed kind.
  In particular \<open>Body\<close>/\<open>Match "x"\<close> switched to \<open>Title\<close> becomes
  \<open>Title\<close>/\<open>Equal ""\<close>.
\<close>

theorem updateNthField_resets_method:
  assumes "0 \<le> i" and "i < int (length (predicates q))"
    and "predicates q ! nat i = FieldPredicate f0 m"
  shows "queryReducer q (UpdateNthField i f) =
           Inr (Query (query_type q)
             ((predicates q)[nat i := FieldPredicate f
                (if method_type m \<in> set (allowedMethods f) then m
                 else initMethods (hd (allowedMethods f)))]))
       \<and> (f0 = Body \<and> m = Match ''x'' \<longrightarrow>
            queryReducer q (UpdateNthField i Title) =
              Inr (Query (query_type q)
                ((predicates q)[nat i := FieldPredicate Title (Equal '''')])))"
  using assms by (simp add: js_index_in_range Let_def)

text \<open>
  The field switch at index 1 of a two-predicate query.
\<close>

theorem updateNthField_resets_method_witness:
  "queryReducer (Query QAll [initQueryPredicate, FieldPredicate Body (Match ''x'')])
     (UpdateNthField 1 Title)
   = Inr (Query QAll [initQueryPredicate, FieldPredicate Title (Equal '''')])"
  using updateNthField_resets_method [of 1
      "Query QAll [initQueryPredicate, FieldPredicate Body (Match ''x'')]" Body "Match ''x''" Title]
  by simp

text \<open>
  Claim C6. When the predicate at an in-range index is a field predicate,
  \<^verbatim>\<open>updateNthMethod\<close> computes the candidate with \<open>methodReducer\<close>; a candidate whose
  kind is allowed for the field replaces the method, any other leaves the whole query
  unchanged. In particular \<open>Title\<close>/\<open>Equal "x"\<close> asked to become a match is left as
  it is.
\<close>

theorem updateNthMethod_checked:
  assumes "0 \<le> i" and "i < int (length (predicates q))"
    and "predicates q ! nat i = FieldPredicate f0 m"
  shows "queryReducer q (UpdateNthMethod i ma) =
           (if method_type (methodReducer m ma) \<in> set (allowedMethods f0)
            then Inr (Query (query_type q)
                   ((predicates q)[nat i := FieldPredicate f0 (methodReducer m ma)]))
            else Inr q)
       \<and> (f0 = Title \<and> m = Equal ''x'' \<longrightarrow>
            queryReducer q (UpdateNthMethod i (MUpdateType MatchT)) = Inr q)"
  using assms by (simp add: js_index_in_range Let_def)

text \<open>
  The rejected switch on \<open>Title\<close>, and the accepted one on \<open>Body\<close>.
\<close>

theorem updateNthMethod_checked_witness:
  "queryReducer (Query QAll [FieldPredicate Title (Equal ''x'')])
     (UpdateNthMethod 0 (MUpdateType MatchT))
   = Inr (Query QAll [FieldPredicate Title (Equal ''x'')])
   \<and> queryReducer (Query QAll [FieldPredicate Body (Equal ''x'')])
     (UpdateNthMethod 0 (MUpdateType MatchT))
   = Inr (Query QAll [FieldPredicate Body (Match '''')])"
  using updateNthMethod_checked [of 0 "Query QAll [FieldPredicate Title (Equal ''x'')]"
      Title "Equal ''x''" "MUpdateType MatchT"]
    updateNthMethod_checked [of 0 "Query QAll [FieldPredicate Body (Equal ''x'')]"
      Body "Equal ''x''" "MUpdateType MatchT"]
  by simp

text \<open>
  Claim C8. In a root whose first predicate is a query predicate holding a single
  field predicate, \<^verbatim>\<open>updateNthQuery\<close> at 0 carrying \<^verbatim>\<open>updateNthField\<close> at 0 to
  \<open>Body\<close> changes that nested predicate's field and nothing else: its method, the nested
  combinator, the root's combinator and all the root's other predicates stay.
\<close>

theorem updateNthQuery_frame:
  "queryReducer (Query c (QueryPredicate (Query c' [FieldPredicate f m]) # rest))
     (UpdateNthQuery 0 (UpdateNthField 0 Body))
   = Inr (Query c (QueryPredicate (Query c' [FieldPredicate Body m]) # rest))"
  by (cases m) (simp_all add: js_index_def)

text \<open>
  A root with one sibling after the nested query.
\<close>

theorem updateNthQuery_frame_witness:
  "queryReducer
     (Query QAny [QueryPredicate (Query QAll [FieldPredicate Title (Equal ''x'')]),
                  initFieldPredicate])
     (UpdateNthQuery 0 (UpdateNthField 0 Body))
   = Inr (Query QAny [QueryPredicate (Query QAll [FieldPredicate Body (Equal ''x'')]),
                  initFieldPredicate])"
  using updateNthQuery_frame [of QAny QAll Title "Equal ''x''" "[initFieldPredicate]"]
  by simp

subsection \<open>The method reducer\<close>

text \<open>
  Claim C9. \<open>methodReducer\<close> is a total function with no failure case. A kind
  change returns the default method of the requested kind, with empty operand,
  whatever the current method and with no reference to any field. An operand change
  keeps the kind and sets the operand, for both kinds.
\<close>

theorem methodReducer_total:
  "methodReducer m (MUpdateType k) = initMethods k
   \<and> method_type (initMethods k) = k
   \<and> method_value (initMethods k) = ''''
   \<and> method_type (methodReducer m (UpdateTextValue text)) = method_type m
   \<and> method_value (methodReducer m (UpdateTextValue text)) = text"
  by (cases m; cases k; simp)

text \<open>
  A kind change from an equality method and an operand change on a match method.
\<close>

theorem methodReducer_total_witness:
  "methodReducer (Equal ''x'') (MUpdateType MatchT) = Match ''''
   \<and> methodReducer (Match ''x'') (UpdateTextValue ''abc'') = Match ''abc''"
  using methodReducer_total [of "Equal ''x''" MatchT "''abc''"]
    methodReducer_total [of "Match ''x''" MatchT "''abc''"]
  by simp

end
